theory Spec2Isabelle
  imports Complex_Main
begin

section \<open>The retry wrapper of \<open>src/app.ts\<close>\<close>

text \<open>
  An asynchronous zero-argument operation \<^verbatim>\<open>fn: () => Promise<T>\<close> is a state
  transformer on the state of the outside world: invoked in a state, it settles with a
  rejection (\<open>Inl\<close>) or a value (\<open>Inr\<close>) and leaves a new state.
\<close>

type_synonym ('s, 'e, 'a) async_op = "'s \<Rightarrow> ('e + 'a) \<times> 's"

text \<open>
  What the wrapper itself does, in order: it invokes \<open>fn\<close>, and it awaits a timer of
  \<open>delay\<close> milliseconds.
\<close>

datatype tick = Attempt | Wait int

text \<open>The number of invocations in such a sequence, and the waits in it, in order.\<close>

fun attempts :: "tick list \<Rightarrow> nat" where
  "attempts [] = 0"
| "attempts (Attempt # ts) = Suc (attempts ts)"
| "attempts (Wait d # ts) = attempts ts"

fun waits :: "tick list \<Rightarrow> int list" where
  "waits [] = []"
| "waits (Attempt # ts) = waits ts"
| "waits (Wait d # ts) = d # waits ts"

text \<open>
  \<^verbatim>\<open>
  async function retryAsync<T>(fn: () => Promise<T>, retries: number, delay = 1000): Promise<T> {
    let lastError;
    for (let i = 0; i < retries; i++) {
      try {
        return await fn();
      } catch (error) {
        lastError = error;
        if (i < retries - 1) {
          await new Promise(resolve => setTimeout(resolve, delay));
        }
      }
    }
    throw lastError;
  }
  \<close>
  The loop is the recursion \<open>retry_loop\<close> on the counter \<open>i\<close>, with \<open>lastError\<close>
  carried along; \<open>None\<close> is JavaScript's \<^verbatim>\<open>undefined\<close>, the value of the
  uninitialised variable. The thrown value is therefore an \<open>'e option\<close>. The numbers
  \<open>retries\<close> and \<open>delay\<close> are integers here.
\<close>

function retry_loop ::
  "('s, 'e, 'a) async_op \<Rightarrow> int \<Rightarrow> int \<Rightarrow> int \<Rightarrow> 'e option \<Rightarrow> 's
     \<Rightarrow> ('e option + 'a) \<times> 's \<times> tick list" where
  "retry_loop fn retries delay i lastError s =
     (if i < retries then
        (case fn s of
           (Inr v, s') \<Rightarrow> (Inr v, s', [Attempt])
         | (Inl error, s') \<Rightarrow>
             (case retry_loop fn retries delay (i + 1) (Some error) s' of
                (r, s'', ticks) \<Rightarrow>
                  (r, s'', Attempt # (if i < retries - 1 then [Wait delay] else []) @ ticks)))
      else (Inl lastError, s, []))"
  by pat_completeness auto
termination
  by (relation "measure (\<lambda>(fn, retries, delay, i, lastError, s). nat (retries - i))") auto

declare retry_loop.simps [simp del]

definition retryAsync ::
  "('s, 'e, 'a) async_op \<Rightarrow> int \<Rightarrow> int \<Rightarrow> 's \<Rightarrow> ('e option + 'a) \<times> 's \<times> tick list" where
  "retryAsync fn retries delay s = retry_loop fn retries delay 0 None s"

text \<open>The default value of the parameter \<open>delay\<close>.\<close>

definition default_delay :: int where
  "default_delay = 1000"

text \<open>
  How the first \<open>n\<close> invocations of an operation go when all of them fail: the errors
  they reject with, in order, and the state after the last one; \<open>None\<close> when one of
  these invocations succeeds. It states the hypotheses "fails exactly \<open>k\<close> times" and
  "fails on every attempt" of the properties below and is no part of the program.
\<close>

fun failures :: "('s, 'e, 'a) async_op \<Rightarrow> 's \<Rightarrow> nat \<Rightarrow> ('e list \<times> 's) option" where
  "failures fn s 0 = Some ([], s)"
| "failures fn s (Suc n) =
     (case fn s of
        (Inr v, s') \<Rightarrow> None
      | (Inl error, s') \<Rightarrow>
          (case failures fn s' n of
             None \<Rightarrow> None
           | Some (errors, t) \<Rightarrow> Some (error # errors, t)))"

section \<open>JavaScript values, requests and responses\<close>

text \<open>
  The values of a parsed JSON body and of the objects the handler builds. Numbers are
  rationals: the handler only tests a number for being zero and passes it on.
\<close>

datatype js =
    JUndefined
  | JNull
  | JBool bool
  | JNum rat
  | JStr string
  | JArr "js list"
  | JObj "(string \<times> js) list"

text \<open>
  The truth value JavaScript gives a value under \<^verbatim>\<open>!\<close>: \<^verbatim>\<open>undefined\<close>,
  \<^verbatim>\<open>null\<close>, \<^verbatim>\<open>false\<close>, \<^verbatim>\<open>0\<close> and the empty string are falsy, every array
  and object is truthy.
\<close>

fun truthy :: "js \<Rightarrow> bool" where
  "truthy JUndefined = False"
| "truthy JNull = False"
| "truthy (JBool b) = b"
| "truthy (JNum n) = (n \<noteq> 0)"
| "truthy (JStr s) = (s \<noteq> [])"
| "truthy (JArr xs) = True"
| "truthy (JObj kvs) = True"

text \<open>
  \<^verbatim>\<open>req.body\<close> is the object \<^verbatim>\<open>express.json()\<close> parsed: a map from property names to
  values. Reading a property the object does not have gives \<^verbatim>\<open>undefined\<close>.
\<close>

type_synonym body = "string \<rightharpoonup> js"

definition property :: "body \<Rightarrow> string \<Rightarrow> js" where
  "property b k = (case b k of None \<Rightarrow> JUndefined | Some v \<Rightarrow> v)"

text \<open>A thrown \<^verbatim>\<open>Error\<close> object; the handler reads its \<^verbatim>\<open>message\<close> only.\<close>

datatype js_error = JsError (message: string)

text \<open>The argument of \<^verbatim>\<open>gateway.transaction.sale\<close>, with \<^verbatim>\<open>options.submitForSettlement\<close> flattened.\<close>

record sale_request =
  amount :: js
  paymentMethodNonce :: js
  deviceData :: js
  submitForSettlement :: bool

text \<open>
  The result of a sale that settled. The handler reads \<^verbatim>\<open>result.transaction?.id\<close>, so
  the transaction may be \<^verbatim>\<open>undefined\<close>: it is an option here.
\<close>

record txn =
  tx_id :: string
  tx_status :: string

record sale_result =
  success :: bool
  transaction :: "txn option"

text \<open>The order document built at lines 82 to 93.\<close>

record order =
  order_name :: js
  order_email :: js
  order_phone :: js
  order_shippingAddress :: js
  order_billingAddress :: js
  order_orderId :: string
  order_orderDetails :: js
  order_creationTime :: string
  order_status :: string
  order_transactionId :: js

text \<open>
  A response: the status code (200 unless \<^verbatim>\<open>res.status\<close> set another) and the object
  given to \<^verbatim>\<open>res.json\<close>, as the list of its properties in the order written.
\<close>

record response =
  status :: nat
  json :: "(string \<times> js) list"

text \<open>
  What the handler reads from its surroundings: the clock (\<^verbatim>\<open>Date.now()\<close> in
  milliseconds, and the text of \<^verbatim>\<open>new Date().toISOString()\<close>), the text of
  \<^verbatim>\<open>Math.random().toString(36)\<close>, and two variables of \<^verbatim>\<open>process.env\<close>.
\<close>

record ambient =
  date_now :: nat
  math_random_36 :: string
  date_iso :: string
  APPWRITE_DATABASE_ID :: string
  APPWRITE_ORDERS_COLLECTION_ID :: string

text \<open>The remote calls and timer waits of one request, in order.\<close>

datatype action =
    SaleCall sale_request
  | CreateDocumentCall string string string order
  | TimerWait int

fun tick_action :: "action \<Rightarrow> tick \<Rightarrow> action" where
  "tick_action call Attempt = call"
| "tick_action call (Wait d) = TimerWait d"

fun is_SaleCall :: "action \<Rightarrow> bool" where
  "is_SaleCall (SaleCall r) = True"
| "is_SaleCall (CreateDocumentCall d c i o') = False"
| "is_SaleCall (TimerWait d) = False"

section \<open>Order identifiers\<close>

text \<open>
  \<^verbatim>\<open>
  function generateOrderId() {
    const timestamp = Date.now().toString(36);
    const randomStr = Math.random().toString(36).slice(2, 7);
    return `${timestamp}-${randomStr}`.toUpperCase();
  }
  \<close>
\<close>

definition digits36 :: string where
  "digits36 = ''0123456789abcdefghijklmnopqrstuvwxyz''"

fun toString36 :: "nat \<Rightarrow> string" where
  "toString36 n =
     (if n < 36 then [digits36 ! n] else toString36 (n div 36) @ [digits36 ! (n mod 36)])"

declare toString36.simps [simp del]

definition slice :: "nat \<Rightarrow> nat \<Rightarrow> string \<Rightarrow> string" where
  "slice from to s = take (to - from) (drop from s)"

text \<open>Upper case of the ASCII letters, the only letters these strings hold.\<close>

definition toUpperCase :: "string \<Rightarrow> string" where
  "toUpperCase s =
     map (\<lambda>c. case map_of (zip ''abcdefghijklmnopqrstuvwxyz'' ''ABCDEFGHIJKLMNOPQRSTUVWXYZ'') c of
                 None \<Rightarrow> c
               | Some u \<Rightarrow> u) s"

definition generateOrderId :: "nat \<Rightarrow> string \<Rightarrow> string" where
  "generateOrderId now random36 =
     (let timestamp = toString36 now;
          randomStr = slice 2 7 random36
      in toUpperCase (timestamp @ ''-'' @ randomStr))"

section \<open>The checkout handler\<close>

text \<open>
  The handler \<^verbatim>\<open>app.post('/checkout', ...)\<close> of lines 61 to 127 reads nine properties of
  the body. The test of line 64:
  \<^verbatim>\<open>
  if (!name || !email || !shippingAddress || !orderDetails || !payment_method_nonce || !amount)
  \<close>
\<close>

definition missing_required :: "body \<Rightarrow> bool" where
  "missing_required reqBody =
     (let name = property reqBody ''name'';
          email = property reqBody ''email'';
          shippingAddress = property reqBody ''shippingAddress'';
          orderDetails = property reqBody ''orderDetails'';
          payment_method_nonce = property reqBody ''payment_method_nonce'';
          amount' = property reqBody ''amount''
      in \<not> truthy name \<or> \<not> truthy email \<or> \<not> truthy shippingAddress \<or> \<not> truthy orderDetails
           \<or> \<not> truthy payment_method_nonce \<or> \<not> truthy amount')"

text \<open>The object given to \<^verbatim>\<open>gateway.transaction.sale\<close>, lines 70 to 77.\<close>

definition sale_params :: "body \<Rightarrow> sale_request" where
  "sale_params reqBody =
     \<lparr>amount = property reqBody ''amount'',
      paymentMethodNonce = property reqBody ''payment_method_nonce'',
      deviceData = property reqBody ''deviceData'',
      submitForSettlement = True\<rparr>"

text \<open>\<^verbatim>\<open>result.transaction?.id\<close>, lines 92, 111 and 116.\<close>

definition transactionId :: "sale_result \<Rightarrow> js" where
  "transactionId result =
     (case transaction result of None \<Rightarrow> JUndefined | Some t \<Rightarrow> JStr (tx_id t))"

text \<open>The object \<^verbatim>\<open>order\<close> of lines 82 to 93.\<close>

definition build_order :: "ambient \<Rightarrow> body \<Rightarrow> string \<Rightarrow> sale_result \<Rightarrow> order" where
  "build_order env reqBody orderId result =
     \<lparr>order_name = property reqBody ''name'',
      order_email = property reqBody ''email'',
      order_phone = property reqBody ''phone'',
      order_shippingAddress = property reqBody ''shippingAddress'',
      order_billingAddress = property reqBody ''billingAddress'',
      order_orderId = orderId,
      order_orderDetails = property reqBody ''orderDetails'',
      order_creationTime = date_iso env,
      order_status = ''Pending'',
      order_transactionId = transactionId result\<rparr>"

text \<open>
  The message of the \<^verbatim>\<open>TypeError\<close> that reading \<^verbatim>\<open>.status\<close> of \<^verbatim>\<open>undefined\<close> throws
  at line 120 (the wording of current V8).
\<close>

definition status_of_undefined :: string where
  "status_of_undefined = ''Cannot read properties of undefined (reading 'status')''"

text \<open>
  The handler. The two remote operations are parameters: \<open>sale\<close> is
  \<^verbatim>\<open>gateway.transaction.sale\<close> and \<open>createDocument\<close> is \<^verbatim>\<open>database.createDocument\<close> of
  the client configured at lines 97 to 103, both acting on the state \<open>'w\<close> of the
  remote services and rejecting with \<^verbatim>\<open>Error\<close> objects. The result is the response,
  the state left behind and the calls made, in order. The sale is awaited directly
  (line 70); the creation of the document goes through \<open>retryAsync\<close> with 3 attempts
  and the default delay (line 104), and each of its attempts is one call of
  \<open>createDocument\<close>. Without a transaction, \<^verbatim>\<open>result.transaction.status\<close> throws a
  \<^verbatim>\<open>TypeError\<close> inside the outer \<^verbatim>\<open>try\<close>, and the \<^verbatim>\<open>catch\<close> of line 124 answers it.
\<close>

definition checkout ::
  "ambient \<Rightarrow> (sale_request \<Rightarrow> ('w, js_error, sale_result) async_op)
     \<Rightarrow> (string \<Rightarrow> string \<Rightarrow> string \<Rightarrow> order \<Rightarrow> ('w, js_error, 'd) async_op)
     \<Rightarrow> body \<Rightarrow> 'w \<Rightarrow> response \<times> 'w \<times> action list" where
  "checkout env sale createDocument reqBody w =
     (if missing_required reqBody
      then (\<lparr>status = 400,
              json = [(''ok'', JBool False), (''message'', JStr ''Missing required fields'')]\<rparr>,
            w, [])
      else
        (case sale (sale_params reqBody) w of
           (Inl error, w1) \<Rightarrow>
             (\<lparr>status = 500, json = [(''ok'', JBool False), (''error'', JStr (message error))]\<rparr>,
              w1, [SaleCall (sale_params reqBody)])
         | (Inr result, w1) \<Rightarrow>
             if success result then
               (let orderId = generateOrderId (date_now env) (math_random_36 env);
                    order = build_order env reqBody orderId result;
                    call = CreateDocumentCall (APPWRITE_DATABASE_ID env)
                             (APPWRITE_ORDERS_COLLECTION_ID env) orderId order
                in
                case retryAsync
                       (createDocument (APPWRITE_DATABASE_ID env)
                          (APPWRITE_ORDERS_COLLECTION_ID env) orderId order)
                       3 default_delay w1 of
                  (Inr document, w2, ticks) \<Rightarrow>
                    (\<lparr>status = 200,
                      json = [(''ok'', JBool True), (''orderId'', JStr orderId),
                              (''transactionId'', transactionId result)]\<rparr>,
                     w2, SaleCall (sale_params reqBody) # map (tick_action call) ticks)
                | (Inl dbError, w2, ticks) \<Rightarrow>
                    (\<lparr>status = 500,
                      json = [(''ok'', JBool False),
                              (''message'', JStr ''Payment processed but order creation failed. Please contact support.''),
                              (''transactionId'', transactionId result)]\<rparr>,
                     w2, SaleCall (sale_params reqBody) # map (tick_action call) ticks))
             else
               (case transaction result of
                  None \<Rightarrow>
                    (\<lparr>status = 500,
                      json = [(''ok'', JBool False), (''error'', JStr status_of_undefined)]\<rparr>,
                     w1, [SaleCall (sale_params reqBody)])
                | Some t \<Rightarrow>
                    (\<lparr>status = 400,
                      json = [(''ok'', JBool False), (''message'', JStr (tx_status t))]\<rparr>,
                     w1, [SaleCall (sale_params reqBody)]))))"

section \<open>Concrete operations and requests\<close>

text \<open>
  An operation on a counter of the invocations made so far: it rejects while fewer than
  \<open>k\<close> invocations came before, each time with an error of its own, and resolves with
  \<open>v\<close> from then on.
\<close>

definition failing_until :: "nat \<Rightarrow> 'a \<Rightarrow> (nat, js_error, 'a) async_op" where
  "failing_until k v n =
     (if n < k then Inl (JsError (replicate (Suc n) CHR ''x'')) else Inr v, Suc n)"

text \<open>
  The surroundings and the body of a well-formed request, three results of a sale, and
  remote operations acting on a counter of the remote calls made so far.
\<close>

definition demo_env :: ambient where
  "demo_env =
     \<lparr>date_now = 1700000000000, math_random_36 = ''0.4fzyo82mvyr'',
      date_iso = ''2023-11-14T22:13:20.000Z'',
      APPWRITE_DATABASE_ID = ''shop'', APPWRITE_ORDERS_COLLECTION_ID = ''orders''\<rparr>"

definition demo_body :: body where
  "demo_body =
     map_of [(''name'', JStr ''Ann''), (''email'', JStr ''ann@example.org''),
             (''shippingAddress'', JStr ''1 Main St''), (''orderDetails'', JStr ''1 book''),
             (''payment_method_nonce'', JStr ''fake-valid-nonce''), (''amount'', JStr ''10.00'')]"

definition approved :: sale_result where
  "approved = \<lparr>success = True,
                transaction = Some \<lparr>tx_id = ''TX1'', tx_status = ''submitted_for_settlement''\<rparr>\<rparr>"

definition declined :: sale_result where
  "declined = \<lparr>success = False,
                transaction = Some \<lparr>tx_id = ''TX2'', tx_status = ''processor_declined''\<rparr>\<rparr>"

definition invalid :: sale_result where
  "invalid = \<lparr>success = False, transaction = None\<rparr>"

definition sale_settling :: "sale_result \<Rightarrow> sale_request \<Rightarrow> (nat, js_error, sale_result) async_op" where
  "sale_settling result request n = (Inr result, Suc n)"

definition sale_flaky :: "sale_request \<Rightarrow> (nat, js_error, sale_result) async_op" where
  "sale_flaky request n = (if n = 0 then Inl (JsError ''ETIMEDOUT'') else Inr approved, Suc n)"

definition sale_unreachable :: "sale_request \<Rightarrow> (nat, js_error, sale_result) async_op" where
  "sale_unreachable request n = (Inl (JsError ''ECONNREFUSED''), Suc n)"

definition store_up :: "string \<Rightarrow> string \<Rightarrow> string \<Rightarrow> order \<Rightarrow> (nat, js_error, unit) async_op" where
  "store_up databaseId collectionId documentId data n = (Inr (), Suc n)"

definition store_down :: "string \<Rightarrow> string \<Rightarrow> string \<Rightarrow> order \<Rightarrow> (nat, js_error, unit) async_op" where
  "store_down databaseId collectionId documentId data n = (Inl (JsError ''Server Error''), Suc n)"

section \<open>Properties of the retry wrapper\<close>

lemma attempts_append: "attempts (xs @ ys) = attempts xs + attempts ys"
  by (induction xs rule: attempts.induct) simp_all

lemma waits_append: "waits (xs @ ys) = waits xs @ waits ys"
  by (induction xs rule: waits.induct) simp_all

lemma attempts_rounds: "attempts (concat (replicate k [Attempt, Wait D])) = k"
  by (induction k) simp_all

lemma waits_rounds: "waits (concat (replicate k [Attempt, Wait D])) = replicate k D"
  by (induction k) simp_all

lemma retry_loop_succeeds:
  "failures fn s k = Some (errors, t) \<Longrightarrow> fn t = (Inr v, t') \<Longrightarrow> i + int k < N \<Longrightarrow>
   retry_loop fn N D i lastError s = (Inr v, t', concat (replicate k [Attempt, Wait D]) @ [Attempt])"
proof (induction k arbitrary: s i lastError errors)
  case 0
  then show ?case by (simp add: retry_loop.simps)
next
  case (Suc k)
  from Suc.prems(1) obtain e s1 es where
    step: "fn s = (Inl e, s1)" and rest: "failures fn s1 k = Some (es, t)"
    by (auto split: prod.splits sum.splits option.splits)
  from Suc.prems(3) have lt: "(i + 1) + int k < N" by simp
  have "retry_loop fn N D (i + 1) (Some e) s1
          = (Inr v, t', concat (replicate k [Attempt, Wait D]) @ [Attempt])"
    by (rule Suc.IH [OF rest Suc.prems(2) lt])
  moreover from Suc.prems(3) have "i < N" "i < N - 1" by simp_all
  ultimately show ?case
    using step by (subst retry_loop.simps) simp
qed

lemma retry_loop_exhausted:
  "failures fn s k = Some (errors, t) \<Longrightarrow> i + int k = N \<Longrightarrow>
   retry_loop fn N D i lastError s =
     (Inl (if errors = [] then lastError else Some (last errors)), t,
      if k = 0 then [] else concat (replicate (k - 1) [Attempt, Wait D]) @ [Attempt])"
proof (induction k arbitrary: s i lastError errors)
  case 0
  then show ?case by (simp add: retry_loop.simps)
next
  case (Suc k)
  from Suc.prems(1) obtain e s1 es where
    step: "fn s = (Inl e, s1)" and rest: "failures fn s1 k = Some (es, t)"
      and errs: "errors = e # es"
    by (auto split: prod.splits sum.splits option.splits)
  from Suc.prems(2) have eq: "(i + 1) + int k = N" by simp
  note ih = Suc.IH [OF rest eq, of "Some e"]
  from Suc.prems(2) have "i < N" by simp
  show ?case
  proof (cases k)
    case 0
    with Suc.prems(2) have "\<not> i < N - 1" by simp
    with ih step errs 0 \<open>i < N\<close> rest show ?thesis
      by (subst retry_loop.simps) simp
  next
    case (Suc j)
    with Suc.prems(2) have "i < N - 1" by simp
    moreover from rest Suc have "es \<noteq> []"
      by (auto split: prod.splits sum.splits option.splits)
    ultimately show ?thesis
      using ih step errs Suc \<open>i < N\<close> by (subst retry_loop.simps) simp
  qed
qed

lemma failures_length: "failures fn s k = Some (errors, t) \<Longrightarrow> length errors = k"
  by (induction k arbitrary: s errors) (auto split: prod.splits sum.splits option.splits)

text \<open>
  C2. For a maximum attempt count \<open>N \<ge> 1\<close>, a delay \<open>D\<close> and an operation whose first
  \<open>k < N\<close> invocations fail and whose next invocation succeeds with \<open>v\<close>, the retry
  wrapper returns \<open>v\<close>, invokes the operation exactly \<open>k + 1\<close> times and waits exactly
  \<open>k\<close> times, each time for \<open>D\<close>, once after every failed attempt and not after the
  last attempt.
\<close>

theorem retryAsync_returns_first_success:
  assumes "1 \<le> N" and "int k < N"
    and "failures fn s k = Some (errors, t)" and "fn t = (Inr v, t')"
  shows "retryAsync fn N D s = (Inr v, t', concat (replicate k [Attempt, Wait D]) @ [Attempt])
    \<and> attempts (snd (snd (retryAsync fn N D s))) = k + 1
    \<and> waits (snd (snd (retryAsync fn N D s))) = replicate k D"
proof -
  from assms(2) have "0 + int k < N" by simp
  from retry_loop_succeeds [OF assms(3) assms(4) this]
  have run: "retryAsync fn N D s
               = (Inr v, t', concat (replicate k [Attempt, Wait D]) @ [Attempt])"
    by (simp add: retryAsync_def)
  then show ?thesis
    by (simp add: attempts_append waits_append attempts_rounds waits_rounds)
qed

theorem retryAsync_returns_first_success_witness:
  "retryAsync (failing_until 2 ''paid'') 3 250 0
     = (Inr ''paid'', 3, [Attempt, Wait 250, Attempt, Wait 250, Attempt])
   \<and> attempts (snd (snd (retryAsync (failing_until 2 ''paid'') 3 250 0))) = 3
   \<and> waits (snd (snd (retryAsync (failing_until 2 ''paid'') 3 250 0))) = [250, 250]"
proof -
  have f: "failures (failing_until 2 ''paid'') 0 (Suc (Suc 0))
             = Some ([JsError ''x'', JsError ''xx''], 2)"
    by (simp add: failing_until_def)
  have g: "failing_until 2 ''paid'' 2 = (Inr ''paid'', 3)"
    by (simp add: failing_until_def)
  show ?thesis
    using retryAsync_returns_first_success [of 3 "Suc (Suc 0)", OF _ _ f g, of 250]
    by simp
qed

text \<open>
  C3. For a maximum attempt count \<open>N \<ge> 1\<close> and an operation whose first \<open>N\<close>
  invocations all fail, the retry wrapper invokes the operation exactly \<open>N\<close> times and
  throws the error of the last attempt itself, not wrapped.
\<close>

theorem retryAsync_propagates_last_failure:
  assumes "1 \<le> N" and "failures fn s (nat N) = Some (errors, t)"
  shows "retryAsync fn N D s
           = (Inl (Some (last errors)), t,
              concat (replicate (nat N - 1) [Attempt, Wait D]) @ [Attempt])
    \<and> length errors = nat N
    \<and> attempts (snd (snd (retryAsync fn N D s))) = nat N
    \<and> waits (snd (snd (retryAsync fn N D s))) = replicate (nat N - 1) D"
proof -
  from assms(1) have "0 + int (nat N) = N" and pos: "nat N \<noteq> 0" by simp_all
  from retry_loop_exhausted [OF assms(2) this(1), of D None]
  have run: "retryAsync fn N D s
               = (Inl (if errors = [] then None else Some (last errors)), t,
                  concat (replicate (nat N - 1) [Attempt, Wait D]) @ [Attempt])"
    using pos by (simp add: retryAsync_def)
  have len: "length errors = nat N"
    by (rule failures_length [OF assms(2)])
  with pos have "errors \<noteq> []" by auto
  moreover from pos have "Suc (nat N - Suc 0) = nat N" by simp
  ultimately show ?thesis
    using run len
    by (simp add: attempts_append waits_append attempts_rounds waits_rounds)
qed

theorem retryAsync_propagates_last_failure_witness:
  "retryAsync (failing_until 5 ''paid'') 3 250 0
     = (Inl (Some (JsError ''xxx'')), 3, [Attempt, Wait 250, Attempt, Wait 250, Attempt])
   \<and> attempts (snd (snd (retryAsync (failing_until 5 ''paid'') 3 250 0))) = 3
   \<and> waits (snd (snd (retryAsync (failing_until 5 ''paid'') 3 250 0))) = [250, 250]"
proof -
  have f: "failures (failing_until 5 ''paid'') 0 (nat 3)
             = Some ([JsError ''x'', JsError ''xx'', JsError ''xxx''], 3)"
    by (simp add: failing_until_def eval_nat_numeral)
  show ?thesis
    using retryAsync_propagates_last_failure [of 3, OF _ f, of 250]
    by (simp add: eval_nat_numeral)
qed

section \<open>The retry wrapper without attempts\<close>

text \<open>
  C9. Called with \<open>retries = 0\<close>, the retry wrapper never invokes the operation (the
  state is untouched and nothing is attempted or awaited) and throws \<^verbatim>\<open>undefined\<close>,
  the uninitialised \<open>lastError\<close>.
\<close>

theorem retryAsync_zero_retries:
  "retryAsync fn 0 delay s = (Inl None, s, [])"
  by (simp add: retryAsync_def retry_loop.simps)

section \<open>Properties of the checkout handler\<close>

lemma checkout_rejects:
  "missing_required reqBody \<Longrightarrow>
   checkout env sale createDocument reqBody w =
     (\<lparr>status = 400,
       json = [(''ok'', JBool False), (''message'', JStr ''Missing required fields'')]\<rparr>,
      w, [])"
  by (simp add: checkout_def)

lemma falsy_is_missing:
  "k \<in> {''name'', ''email'', ''shippingAddress'', ''orderDetails'', ''payment_method_nonce'',
         ''amount''} \<Longrightarrow> \<not> truthy (property reqBody k) \<Longrightarrow> missing_required reqBody"
  by (auto simp add: missing_required_def)

lemma demo_body_valid: "\<not> missing_required demo_body"
  by (simp add: missing_required_def demo_body_def property_def)

lemma no_SaleCall_in_retries:
  "filter is_SaleCall (map (tick_action (CreateDocumentCall d c i x)) ticks) = []"
proof (induction ticks)
  case Nil
  show ?case by simp
next
  case (Cons t ticks)
  then show ?case by (cases t) simp_all
qed

text \<open>
  The order identifier of the request of the examples, 1700000000000 milliseconds after the
  epoch.
\<close>

lemma generateOrderId_example:
  "generateOrderId 1700000000000 ''0.4fzyo82mvyr'' = ''LOYW3V28-4FZYO''"
  by (simp add: generateOrderId_def toString36.simps digits36_def slice_def toUpperCase_def)

text \<open>
  C1, as the code has it. The charge is not run through the retry wrapper: for every
  request that passes validation, \<open>sale\<close> is invoked exactly once, first of all calls,
  and when that one invocation rejects, the handler answers 500 with the error's message
  at once, with no wait and no second attempt.
\<close>

theorem checkout_single_sale_attempt:
  assumes "\<not> missing_required reqBody"
  shows "filter is_SaleCall (snd (snd (checkout env sale createDocument reqBody w)))
           = [SaleCall (sale_params reqBody)]
    \<and> hd (snd (snd (checkout env sale createDocument reqBody w))) = SaleCall (sale_params reqBody)
    \<and> (fst (sale (sale_params reqBody) w) = Inl error \<longrightarrow>
         checkout env sale createDocument reqBody w =
           (\<lparr>status = 500,
             json = [(''ok'', JBool False), (''error'', JStr (message error))]\<rparr>,
            snd (sale (sale_params reqBody) w), [SaleCall (sale_params reqBody)]))"
  using assms
  by (simp add: checkout_def Let_def no_SaleCall_in_retries
        split: prod.splits sum.splits option.splits)

theorem checkout_single_sale_attempt_witness:
  "filter is_SaleCall (snd (snd (checkout demo_env sale_flaky store_up demo_body 0)))
     = [SaleCall (sale_params demo_body)]
   \<and> hd (snd (snd (checkout demo_env sale_flaky store_up demo_body 0)))
       = SaleCall (sale_params demo_body)
   \<and> checkout demo_env sale_flaky store_up demo_body 0 =
       (\<lparr>status = 500, json = [(''ok'', JBool False), (''error'', JStr ''ETIMEDOUT'')]\<rparr>,
        1, [SaleCall (sale_params demo_body)])"
  using checkout_single_sale_attempt [of demo_body demo_env sale_flaky store_up 0
      "JsError ''ETIMEDOUT''"] demo_body_valid
  by (simp add: sale_flaky_def)

text \<open>
  C1, as stated, fails. With a gateway whose first call times out and whose second call
  would approve, a retry sequence of 3 attempts around the charge ends in the approval
  after two attempts and one wait, while the handler calls the gateway once and answers
  500.
\<close>

theorem checkout_sale_not_retried:
  "retryAsync (sale_flaky (sale_params demo_body)) 3 default_delay 0
     = (Inr approved, 2, [Attempt, Wait 1000, Attempt])
   \<and> checkout demo_env sale_flaky store_up demo_body 0 =
       (\<lparr>status = 500, json = [(''ok'', JBool False), (''error'', JStr ''ETIMEDOUT'')]\<rparr>,
        1, [SaleCall (sale_params demo_body)])"
  using demo_body_valid
  by (simp add: checkout_def retryAsync_def retry_loop.simps sale_flaky_def default_delay_def)

text \<open>
  C4. When a required field (name, email, shippingAddress, orderDetails,
  payment_method_nonce, amount) is absent from the body, the handler answers 400 with the
  message "Missing required fields", the remote state is untouched and no remote call is
  made.
\<close>

theorem checkout_missing_field:
  assumes "k \<in> {''name'', ''email'', ''shippingAddress'', ''orderDetails'',
                 ''payment_method_nonce'', ''amount''}"
    and "reqBody k = None"
  shows "checkout env sale createDocument reqBody w =
     (\<lparr>status = 400,
       json = [(''ok'', JBool False), (''message'', JStr ''Missing required fields'')]\<rparr>,
      w, [])"
proof -
  from assms(2) have "\<not> truthy (property reqBody k)" by (simp add: property_def)
  with assms(1) have "missing_required reqBody" by (rule falsy_is_missing)
  then show ?thesis by (rule checkout_rejects)
qed

theorem checkout_missing_field_witness:
  "checkout demo_env (sale_settling approved) store_up (demo_body(''amount'' := None)) 0 =
     (\<lparr>status = 400,
       json = [(''ok'', JBool False), (''message'', JStr ''Missing required fields'')]\<rparr>,
      0, [])"
  using checkout_missing_field [of "''amount''" "demo_body(''amount'' := None)"
      demo_env "sale_settling approved" store_up 0]
  by simp

text \<open>
  C10. A required field with any falsy value is treated as absent: the handler answers
  400 with the message "Missing required fields" and makes no remote call. The instances
  are a name or an email that is the empty string and an amount that is 0.
\<close>

theorem checkout_falsy_field:
  assumes "k \<in> {''name'', ''email'', ''shippingAddress'', ''orderDetails'',
                 ''payment_method_nonce'', ''amount''}"
    and "\<not> truthy (property reqBody k)"
  shows "checkout env sale createDocument reqBody w =
     (\<lparr>status = 400,
       json = [(''ok'', JBool False), (''message'', JStr ''Missing required fields'')]\<rparr>,
      w, [])"
  using assms by (intro checkout_rejects falsy_is_missing)

theorem checkout_falsy_field_witness:
  "checkout demo_env (sale_settling approved) store_up (demo_body(''name'' \<mapsto> JStr '''')) 0 =
     (\<lparr>status = 400,
       json = [(''ok'', JBool False), (''message'', JStr ''Missing required fields'')]\<rparr>,
      0, [])
   \<and> checkout demo_env (sale_settling approved) store_up (demo_body(''email'' \<mapsto> JStr '''')) 0 =
     (\<lparr>status = 400,
       json = [(''ok'', JBool False), (''message'', JStr ''Missing required fields'')]\<rparr>,
      0, [])
   \<and> checkout demo_env (sale_settling approved) store_up (demo_body(''amount'' \<mapsto> JNum 0)) 0 =
     (\<lparr>status = 400,
       json = [(''ok'', JBool False), (''message'', JStr ''Missing required fields'')]\<rparr>,
      0, [])"
  using checkout_falsy_field [of "''name''" "demo_body(''name'' \<mapsto> JStr '''')"
      demo_env "sale_settling approved" store_up 0]
    checkout_falsy_field [of "''email''" "demo_body(''email'' \<mapsto> JStr '''')"
      demo_env "sale_settling approved" store_up 0]
    checkout_falsy_field [of "''amount''" "demo_body(''amount'' \<mapsto> JNum 0)"
      demo_env "sale_settling approved" store_up 0]
  by (simp add: property_def)

text \<open>
  A sale that settles with \<open>success = false\<close> and carries a transaction is answered
  with 400 and the transaction's status; nothing is persisted.
\<close>

lemma checkout_declined:
  assumes "\<not> missing_required reqBody"
    and "sale (sale_params reqBody) w = (Inr result, w1)"
    and "\<not> success result" and "transaction result = Some t"
  shows "checkout env sale createDocument reqBody w =
     (\<lparr>status = 400, json = [(''ok'', JBool False), (''message'', JStr (tx_status t))]\<rparr>,
      w1, [SaleCall (sale_params reqBody)])"
  using assms by (simp add: checkout_def)

lemma checkout_declined_example:
  "checkout demo_env (sale_settling declined) store_up demo_body 0 =
     (\<lparr>status = 400, json = [(''ok'', JBool False), (''message'', JStr ''processor_declined'')]\<rparr>,
      1, [SaleCall (sale_params demo_body)])"
  using demo_body_valid
  by (simp add: checkout_def sale_settling_def declined_def)

lemma status_of_undefined_length: "length status_of_undefined = 54"
  by (simp add: status_of_undefined_def)

text \<open>
  C5 at a sale that settles with \<open>success = false\<close> and no transaction (a request
  the gateway rejects in validation): reading the status throws, and the handler answers
  500 with the message of the \<^verbatim>\<open>TypeError\<close>, not 400 with a status of the gateway.
\<close>

theorem checkout_failure_without_transaction:
  "checkout demo_env (sale_settling invalid) store_up demo_body 0 =
     (\<lparr>status = 500,
       json = [(''ok'', JBool False),
               (''error'', JStr ''Cannot read properties of undefined (reading 'status')'')]\<rparr>,
      1, [SaleCall (sale_params demo_body)])"
  using demo_body_valid
  by (simp add: checkout_def sale_settling_def invalid_def status_of_undefined_def)

text \<open>
  C6. When the charge succeeds and all three attempts to create the document fail, the
  handler answers 500 with the message "Payment processed but order creation failed.
  Please contact support." and the transaction id of the charge. The calls made are the
  one sale and the three attempts with two waits between them: no refund and no void.
\<close>

theorem checkout_persistence_exhausted:
  fixes env :: ambient and reqBody :: body
  defines "orderId \<equiv> generateOrderId (date_now env) (math_random_36 env)"
  assumes "\<not> missing_required reqBody"
    and "sale (sale_params reqBody) w = (Inr result, w1)"
    and "success result"
    and "failures (createDocument (APPWRITE_DATABASE_ID env) (APPWRITE_ORDERS_COLLECTION_ID env)
            orderId (build_order env reqBody orderId result)) w1 3 = Some (errors, w2)"
  shows "checkout env sale createDocument reqBody w =
     (\<lparr>status = 500,
       json = [(''ok'', JBool False),
               (''message'', JStr ''Payment processed but order creation failed. Please contact support.''),
               (''transactionId'', transactionId result)]\<rparr>,
      w2,
      [SaleCall (sale_params reqBody),
       CreateDocumentCall (APPWRITE_DATABASE_ID env) (APPWRITE_ORDERS_COLLECTION_ID env)
         orderId (build_order env reqBody orderId result),
       TimerWait 1000,
       CreateDocumentCall (APPWRITE_DATABASE_ID env) (APPWRITE_ORDERS_COLLECTION_ID env)
         orderId (build_order env reqBody orderId result),
       TimerWait 1000,
       CreateDocumentCall (APPWRITE_DATABASE_ID env) (APPWRITE_ORDERS_COLLECTION_ID env)
         orderId (build_order env reqBody orderId result)])"
proof -
  have "(0::int) + int 3 = 3" by simp
  from retry_loop_exhausted [OF assms(5) this, of default_delay None]
  have "retryAsync (createDocument (APPWRITE_DATABASE_ID env) (APPWRITE_ORDERS_COLLECTION_ID env)
            orderId (build_order env reqBody orderId result)) 3 default_delay w1
          = (Inl (if errors = [] then None else Some (last errors)), w2,
             [Attempt, Wait 1000, Attempt, Wait 1000, Attempt])"
    by (simp add: retryAsync_def default_delay_def eval_nat_numeral)
  with assms(2-4) show ?thesis
    by (simp add: checkout_def Let_def orderId_def)
qed

theorem checkout_persistence_exhausted_witness:
  "checkout demo_env (sale_settling approved) store_down demo_body 0 =
     (\<lparr>status = 500,
       json = [(''ok'', JBool False),
               (''message'', JStr ''Payment processed but order creation failed. Please contact support.''),
               (''transactionId'', JStr ''TX1'')]\<rparr>,
      4,
      [SaleCall (sale_params demo_body),
       CreateDocumentCall ''shop'' ''orders''
         (generateOrderId 1700000000000 ''0.4fzyo82mvyr'')
         (build_order demo_env demo_body (generateOrderId 1700000000000 ''0.4fzyo82mvyr'') approved),
       TimerWait 1000,
       CreateDocumentCall ''shop'' ''orders''
         (generateOrderId 1700000000000 ''0.4fzyo82mvyr'')
         (build_order demo_env demo_body (generateOrderId 1700000000000 ''0.4fzyo82mvyr'') approved),
       TimerWait 1000,
       CreateDocumentCall ''shop'' ''orders''
         (generateOrderId 1700000000000 ''0.4fzyo82mvyr'')
         (build_order demo_env demo_body (generateOrderId 1700000000000 ''0.4fzyo82mvyr'') approved)])"
proof -
  have s: "sale_settling approved (sale_params demo_body) 0 = (Inr approved, 1)"
    by (simp add: sale_settling_def)
  have a: "success approved" by (simp add: approved_def)
  have f: "failures (store_down (APPWRITE_DATABASE_ID demo_env)
              (APPWRITE_ORDERS_COLLECTION_ID demo_env)
              (generateOrderId (date_now demo_env) (math_random_36 demo_env))
              (build_order demo_env demo_body
                 (generateOrderId (date_now demo_env) (math_random_36 demo_env)) approved)) 1 3
             = Some ([JsError ''Server Error'', JsError ''Server Error'', JsError ''Server Error''], 4)"
    by (simp add: store_down_def eval_nat_numeral)
  show ?thesis
    using checkout_persistence_exhausted [where sale = "sale_settling approved"
        and createDocument = store_down and env = demo_env, OF demo_body_valid s a f]
    by (simp add: demo_env_def transactionId_def approved_def)
qed

text \<open>
  C7. When the charge succeeds and the document is created (after \<open>k < 3\<close> failed
  attempts), the handler answers 200 with \<open>ok\<close>, the generated order identifier
  and the transaction id of the charge result; the order given to the store carries that
  identifier, the status "Pending", the ISO time read at creation and the same
  transaction id.
\<close>

theorem checkout_order_persisted:
  fixes env :: ambient and reqBody :: body and result :: sale_result
  defines "orderId \<equiv> generateOrderId (date_now env) (math_random_36 env)"
  defines "order \<equiv> build_order env reqBody orderId result"
  defines "call \<equiv> CreateDocumentCall (APPWRITE_DATABASE_ID env)
                      (APPWRITE_ORDERS_COLLECTION_ID env) orderId order"
  assumes "\<not> missing_required reqBody"
    and "sale (sale_params reqBody) w = (Inr result, w1)"
    and "success result"
    and "k < 3"
    and "failures (createDocument (APPWRITE_DATABASE_ID env) (APPWRITE_ORDERS_COLLECTION_ID env)
            orderId order) w1 k = Some (errors, w2)"
    and "createDocument (APPWRITE_DATABASE_ID env) (APPWRITE_ORDERS_COLLECTION_ID env)
            orderId order w2 = (Inr document, w3)"
  shows "checkout env sale createDocument reqBody w =
     (\<lparr>status = 200,
       json = [(''ok'', JBool True), (''orderId'', JStr orderId),
               (''transactionId'', transactionId result)]\<rparr>,
      w3,
      SaleCall (sale_params reqBody) # concat (replicate k [call, TimerWait 1000]) @ [call])
    \<and> order_orderId order = orderId
    \<and> order_status order = ''Pending''
    \<and> order_creationTime order = date_iso env
    \<and> order_transactionId order = transactionId result"
proof -
  from assms(7) have "(0::int) + int k < 3" by simp
  from retry_loop_succeeds [OF assms(8) assms(9) this, of default_delay None]
  have "retryAsync (createDocument (APPWRITE_DATABASE_ID env) (APPWRITE_ORDERS_COLLECTION_ID env)
            orderId order) 3 default_delay w1
          = (Inr document, w3, concat (replicate k [Attempt, Wait 1000]) @ [Attempt])"
    by (simp add: retryAsync_def default_delay_def)
  with assms(4-6) have "checkout env sale createDocument reqBody w =
     (\<lparr>status = 200,
       json = [(''ok'', JBool True), (''orderId'', JStr orderId),
               (''transactionId'', transactionId result)]\<rparr>,
      w3,
      SaleCall (sale_params reqBody) # concat (replicate k [call, TimerWait 1000]) @ [call])"
    by (simp add: checkout_def Let_def orderId_def order_def call_def map_concat)
  then show ?thesis
    by (simp add: order_def build_order_def)
qed

theorem checkout_order_persisted_witness:
  "checkout demo_env (sale_settling approved) store_up demo_body 0 =
     (\<lparr>status = 200,
       json = [(''ok'', JBool True),
               (''orderId'', JStr (generateOrderId 1700000000000 ''0.4fzyo82mvyr'')),
               (''transactionId'', JStr ''TX1'')]\<rparr>,
      2,
      [SaleCall (sale_params demo_body),
       CreateDocumentCall ''shop'' ''orders''
         (generateOrderId 1700000000000 ''0.4fzyo82mvyr'')
         (build_order demo_env demo_body (generateOrderId 1700000000000 ''0.4fzyo82mvyr'') approved)])
   \<and> order_status (build_order demo_env demo_body
         (generateOrderId 1700000000000 ''0.4fzyo82mvyr'') approved) = ''Pending''
   \<and> order_creationTime (build_order demo_env demo_body
         (generateOrderId 1700000000000 ''0.4fzyo82mvyr'') approved) = ''2023-11-14T22:13:20.000Z''
   \<and> order_transactionId (build_order demo_env demo_body
         (generateOrderId 1700000000000 ''0.4fzyo82mvyr'') approved) = JStr ''TX1''"
proof -
  have s: "sale_settling approved (sale_params demo_body) 0 = (Inr approved, 1)"
    by (simp add: sale_settling_def)
  have a: "success approved" by (simp add: approved_def)
  have k: "(0::nat) < 3" by simp
  have f: "failures (store_up (APPWRITE_DATABASE_ID demo_env)
              (APPWRITE_ORDERS_COLLECTION_ID demo_env)
              (generateOrderId (date_now demo_env) (math_random_36 demo_env))
              (build_order demo_env demo_body
                 (generateOrderId (date_now demo_env) (math_random_36 demo_env)) approved)) 1 0
             = Some ([], 1)"
    by simp
  have d: "store_up (APPWRITE_DATABASE_ID demo_env)
              (APPWRITE_ORDERS_COLLECTION_ID demo_env)
              (generateOrderId (date_now demo_env) (math_random_36 demo_env))
              (build_order demo_env demo_body
                 (generateOrderId (date_now demo_env) (math_random_36 demo_env)) approved) 1
             = (Inr (), 2)"
    by (simp add: store_up_def)
  show ?thesis
    using checkout_order_persisted [where sale = "sale_settling approved"
        and createDocument = store_up and env = demo_env, OF demo_body_valid s a k f d]
    by (simp add: demo_env_def transactionId_def approved_def)
qed

text \<open>
  C8. When the charge call rejects, the handler answers 500 with \<open>ok = false\<close> and
  the message of the error; the only call made is that one sale, so no order is built or
  persisted. The handler is a total function into responses: the failure never leaves
  it as an exception.
\<close>

theorem checkout_sale_rejected:
  assumes "\<not> missing_required reqBody"
    and "sale (sale_params reqBody) w = (Inl error, w1)"
  shows "checkout env sale createDocument reqBody w =
     (\<lparr>status = 500, json = [(''ok'', JBool False), (''error'', JStr (message error))]\<rparr>,
      w1, [SaleCall (sale_params reqBody)])"
  using assms by (simp add: checkout_def)

theorem checkout_sale_rejected_witness:
  "checkout demo_env sale_unreachable store_up demo_body 0 =
     (\<lparr>status = 500, json = [(''ok'', JBool False), (''error'', JStr ''ECONNREFUSED'')]\<rparr>,
      1, [SaleCall (sale_params demo_body)])"
  using checkout_sale_rejected [of demo_body sale_unreachable 0 "JsError ''ECONNREFUSED''" 1
      demo_env store_up] demo_body_valid
  by (simp add: sale_unreachable_def)

end
